theory Spec2Isabelle
  imports Complex_Main "HOL-Library.Word"
begin

section \<open>Shared types\<close>

text \<open>
  The enumerations of the type declarations. At run time an enum value is a string read
  back from the extension's storage, so \<open>getWarmupConfig\<close> and \<open>getTotalWarmupDays\<close>
  carry a default branch for a value outside the five account ages; \<open>OTHER_AGE\<close>
  stands for such a value.

  Numbers: counters, day numbers and millisecond timestamps are \<open>int\<close>; quantities the
  code divides or scales by a fraction are \<open>real\<close> (the rounding of IEEE doubles is not
  modelled).
\<close>

datatype AlertLevel = DEFCON1 | DEFCON2 | DEFCON3 | DEFCON4 | DEFCON5

datatype SpeedMode = ULTRA_SLOW | SLOW | MEDIUM | NORMAL

datatype AccountAge =
    UNDER_3_MONTHS
  | THREE_TO_SIX_MONTHS
  | SIX_TO_TWELVE_MONTHS
  | ONE_TO_TWO_YEARS
  | OVER_TWO_YEARS
  | OTHER_AGE string

record SessionState =
  actionsToday :: int
  actionsThisSession :: int
  sessionStartTime :: int
  lastActionTime :: int
  alertLevel :: AlertLevel
  isWarmupPhase :: bool
  warmupDay :: int
  accountAge :: AccountAge
  speedMode :: SpeedMode

record WarmupConfig =
  maxActionsPerDay :: int
  maxCommentsPerDay :: int
  minActionSpread :: int
  allowedSpeed :: "SpeedMode list"
  restrictedToConnections :: int
  requiresManualApproval :: bool

subsection \<open>Template strings\<close>

fun show_nat :: "nat \<Rightarrow> string" where
  "show_nat n =
     (if n < 10 then [''0123456789'' ! n]
      else show_nat (n div 10) @ [''0123456789'' ! (n mod 10)])"

declare show_nat.simps [simp del]

definition show_int :: "int \<Rightarrow> string" where
  "show_int i = (if i < 0 then ''-'' @ show_nat (nat (- i)) else show_nat (nat i))"

fun show_SpeedMode :: "SpeedMode \<Rightarrow> string" where
  "show_SpeedMode ULTRA_SLOW = ''ULTRA_SLOW''"
| "show_SpeedMode SLOW = ''SLOW''"
| "show_SpeedMode MEDIUM = ''MEDIUM''"
| "show_SpeedMode NORMAL = ''NORMAL''"

text \<open>\<open>Array.prototype.join\<close>.\<close>

fun join :: "string \<Rightarrow> string list \<Rightarrow> string" where
  "join sep [] = []"
| "join sep [x] = x"
| "join sep (x # y # ys) = x @ sep @ join sep (y # ys)"

section \<open>The warm-up protocol\<close>

text \<open>
  \<open>getTotalWarmupDays\<close> returns \<open>Infinity\<close> for the blocked tier, and
  \<open>getPostWarmupLimits\<close> subtracts it from the day number, so the day arithmetic
  needs the two infinities.
\<close>

datatype days = Days int | Infinity | NegInfinity

fun show_days :: "days \<Rightarrow> string" where
  "show_days (Days n) = show_int n"
| "show_days Infinity = ''Infinity''"
| "show_days NegInfinity = ''-Infinity''"

text \<open>\<open>n - d\<close> for a finite \<open>n\<close>.\<close>

fun minus_days :: "int \<Rightarrow> days \<Rightarrow> days" where
  "minus_days n (Days m) = Days (n - m)"
| "minus_days n Infinity = NegInfinity"
| "minus_days n NegInfinity = Infinity"

text \<open>\<open>d <= n\<close> for a finite \<open>n\<close>.\<close>

fun days_le :: "days \<Rightarrow> int \<Rightarrow> bool" where
  "days_le (Days m) n = (m \<le> n)"
| "days_le Infinity n = False"
| "days_le NegInfinity n = True"

record WarmupProtocol =
  wp_accountAge :: AccountAge
  warmupStartDate :: int
  currentDay :: int

text \<open>\<open>calculateCurrentDay\<close>; \<open>now\<close> is the value of \<open>Date.now()\<close>.\<close>

definition calculateCurrentDay :: "int \<Rightarrow> int \<Rightarrow> int" where
  "calculateCurrentDay now start =
     (let daysSinceStart = \<lfloor>real_of_int (now - start) / (1000 * 60 * 60 * 24)\<rfloor>
      in daysSinceStart + 1)"

text \<open>The constructor.\<close>

definition new_WarmupProtocol :: "int \<Rightarrow> AccountAge \<Rightarrow> int \<Rightarrow> WarmupProtocol" where
  "new_WarmupProtocol now age start =
     \<lparr>wp_accountAge = age, warmupStartDate = start,
      currentDay = calculateCurrentDay now start\<rparr>"

fun totalWarmupDays :: "AccountAge \<Rightarrow> days" where
  "totalWarmupDays UNDER_3_MONTHS = Infinity"
| "totalWarmupDays THREE_TO_SIX_MONTHS = Days 28"
| "totalWarmupDays SIX_TO_TWELVE_MONTHS = Days 14"
| "totalWarmupDays ONE_TO_TWO_YEARS = Days 7"
| "totalWarmupDays OVER_TWO_YEARS = Days 3"
| "totalWarmupDays (OTHER_AGE v) = Days 14"

definition getTotalWarmupDays :: "WarmupProtocol \<Rightarrow> days" where
  "getTotalWarmupDays wp = totalWarmupDays (wp_accountAge wp)"

definition getWarmupConfig :: "WarmupProtocol \<Rightarrow> WarmupConfig" where
  "getWarmupConfig wp =
    (if wp_accountAge wp = UNDER_3_MONTHS then
       \<lparr>maxActionsPerDay = 0, maxCommentsPerDay = 0, minActionSpread = 24,
        allowedSpeed = [], restrictedToConnections = 1, requiresManualApproval = True\<rparr>
     else if wp_accountAge wp = THREE_TO_SIX_MONTHS then
       (if currentDay wp \<le> 7 then
          \<lparr>maxActionsPerDay = 5, maxCommentsPerDay = 0, minActionSpread = 6,
           allowedSpeed = [ULTRA_SLOW], restrictedToConnections = 1,
           requiresManualApproval = True\<rparr>
        else if currentDay wp \<le> 14 then
          \<lparr>maxActionsPerDay = 10, maxCommentsPerDay = 1, minActionSpread = 5,
           allowedSpeed = [ULTRA_SLOW, SLOW], restrictedToConnections = 2,
           requiresManualApproval = False\<rparr>
        else if currentDay wp \<le> 21 then
          \<lparr>maxActionsPerDay = 15, maxCommentsPerDay = 2, minActionSpread = 4,
           allowedSpeed = [SLOW], restrictedToConnections = 2,
           requiresManualApproval = False\<rparr>
        else
          \<lparr>maxActionsPerDay = 25, maxCommentsPerDay = 3, minActionSpread = 4,
           allowedSpeed = [SLOW, MEDIUM], restrictedToConnections = 3,
           requiresManualApproval = False\<rparr>)
     else if wp_accountAge wp = SIX_TO_TWELVE_MONTHS then
       (if currentDay wp \<le> 7 then
          \<lparr>maxActionsPerDay = 15, maxCommentsPerDay = 3, minActionSpread = 4,
           allowedSpeed = [SLOW], restrictedToConnections = 3,
           requiresManualApproval = False\<rparr>
        else
          \<lparr>maxActionsPerDay = 30, maxCommentsPerDay = 7, minActionSpread = 3,
           allowedSpeed = [SLOW, MEDIUM], restrictedToConnections = 3,
           requiresManualApproval = False\<rparr>)
     else if wp_accountAge wp = ONE_TO_TWO_YEARS then
       \<lparr>maxActionsPerDay = 40, maxCommentsPerDay = 10, minActionSpread = 3,
        allowedSpeed = [SLOW, MEDIUM, NORMAL], restrictedToConnections = 3,
        requiresManualApproval = False\<rparr>
     else if wp_accountAge wp = OVER_TWO_YEARS then
       \<lparr>maxActionsPerDay = 60, maxCommentsPerDay = 15, minActionSpread = 3,
        allowedSpeed = [SLOW, MEDIUM, NORMAL], restrictedToConnections = 3,
        requiresManualApproval = False\<rparr>
     else
       \<lparr>maxActionsPerDay = 20, maxCommentsPerDay = 5, minActionSpread = 4,
        allowedSpeed = [SLOW], restrictedToConnections = 2,
        requiresManualApproval = False\<rparr>)"

datatype WarmupAction = like | comment | view

record ActionCheck =
  allowed :: bool
  reason :: "string option"

definition getConnectionDegreeText :: "int \<Rightarrow> string" where
  "getConnectionDegreeText degree =
     (if degree = 1 then ''1st-degree connections only''
      else if degree = 2 then ''1st & 2nd-degree connections''
      else ''all connections'')"

definition canPerformAction ::
  "WarmupProtocol \<Rightarrow> WarmupAction \<Rightarrow> int \<Rightarrow> int \<Rightarrow> int \<Rightarrow> SpeedMode \<Rightarrow> ActionCheck" where
  "canPerformAction wp actionType actionsToday' commentsToday connectionDegree currentSpeed =
    (let config = getWarmupConfig wp in
     if actionsToday' \<ge> maxActionsPerDay config then
       \<lparr>allowed = False,
        reason = Some (''Daily action limit reached ('' @ show_int (maxActionsPerDay config)
          @ ''). Warm-up Day '' @ show_int (currentDay wp) @ ''/''
          @ show_days (getTotalWarmupDays wp) @ ''.'')\<rparr>
     else if actionType = comment \<and> commentsToday \<ge> maxCommentsPerDay config then
       \<lparr>allowed = False,
        reason = Some (''Daily comment limit reached (''
          @ show_int (maxCommentsPerDay config) @ '').'')\<rparr>
     else if actionType = comment \<and> maxCommentsPerDay config = 0 then
       \<lparr>allowed = False,
        reason = Some
          ''Comments disabled during early warm-up phase (too risky for new accounts).''\<rparr>
     else if connectionDegree > restrictedToConnections config then
       \<lparr>allowed = False,
        reason = Some (''Can only engage with ''
          @ getConnectionDegreeText (restrictedToConnections config)
          @ '' during warm-up.'')\<rparr>
     else if \<not> List.member (allowedSpeed config) currentSpeed then
       \<lparr>allowed = False,
        reason = Some (''Speed mode ''
          @ [CHR 0x27] @ show_SpeedMode currentSpeed @ [CHR 0x27]
          @ '' not allowed. Use: ''
          @ join '', '' (map show_SpeedMode (allowedSpeed config)) @ ''.'')\<rparr>
     else \<lparr>allowed = True, reason = None\<rparr>)"

record PostWarmupLimits =
  dailyActions :: int
  percentage :: int

definition getPostWarmupLimits :: "WarmupProtocol \<Rightarrow> PostWarmupLimits" where
  "getPostWarmupLimits wp =
    (let daysSinceWarmupEnd = minus_days (currentDay wp) (getTotalWarmupDays wp) in
     if wp_accountAge wp = THREE_TO_SIX_MONTHS then
       (if days_le daysSinceWarmupEnd 30 then \<lparr>dailyActions = 60, percentage = 60\<rparr>
        else if days_le daysSinceWarmupEnd 60 then \<lparr>dailyActions = 80, percentage = 80\<rparr>
        else \<lparr>dailyActions = 100, percentage = 100\<rparr>)
     else if wp_accountAge wp = SIX_TO_TWELVE_MONTHS then
       (if days_le daysSinceWarmupEnd 30 then \<lparr>dailyActions = 75, percentage = 75\<rparr>
        else \<lparr>dailyActions = 100, percentage = 100\<rparr>)
     else \<lparr>dailyActions = 100, percentage = 100\<rparr>)"

subsection \<open>The warm-up status\<close>

text \<open>\<open>n <= d\<close> for a finite \<open>n\<close>.\<close>

fun le_days :: "int \<Rightarrow> days \<Rightarrow> bool" where
  "le_days n (Days m) = (n \<le> m)"
| "le_days n Infinity = True"
| "le_days n NegInfinity = False"

text \<open>
  The symbols of the restriction lines, as their UTF-8 bytes: the bullet (U+2022), the
  cross mark (U+274C), the lock (U+1F512) and the warning sign (U+26A0 U+FE0F).
\<close>

definition bullet :: string where
  "bullet = [CHR 0xE2, CHR 0x80, CHR 0xA2]"

definition cross_mark :: string where
  "cross_mark = [CHR 0xE2, CHR 0x9D, CHR 0x8C]"

definition lock_sign :: string where
  "lock_sign = [CHR 0xF0, CHR 0x9F, CHR 0x94, CHR 0x92]"

definition warning_sign :: string where
  "warning_sign = [CHR 0xE2, CHR 0x9A, CHR 0xA0, CHR 0xEF, CHR 0xB8, CHR 0x8F]"

record WarmupStatus =
  isInWarmup :: bool
  ws_currentDay :: int
  totalDays :: days
  config :: WarmupConfig
  canProceed :: bool
  ws_message :: string
  restrictions :: "string list"

definition getWarmupStatus :: "WarmupProtocol \<Rightarrow> WarmupStatus" where
  "getWarmupStatus wp =
    (let totalDays' = getTotalWarmupDays wp;
         config' = getWarmupConfig wp;
         isInWarmup' = le_days (currentDay wp) totalDays' in
     if wp_accountAge wp = UNDER_3_MONTHS then
       \<lparr>isInWarmup = True, ws_currentDay = 0, totalDays = Infinity, config = config',
        canProceed = False,
        ws_message = ''Your LinkedIn account is too new for automation. ''
          @ ''Accounts under 3 months old have high ban risk.'',
        restrictions =
          [''Automation is BLOCKED for accounts under 3 months'',
           ''Build your profile manually'',
           ''Connect with 100+ people organically'',
           ''Post and engage manually for 3 months'',
           ''Return when your account is more established'',
           '''',
           ''You can still use:'',
           bullet @ '' Manual AI comment suggestions (no auto-posting)'',
           bullet @ '' Post writing assistance'',
           bullet @ '' Profile analysis'']\<rparr>
     else if \<not> isInWarmup' then
       \<lparr>isInWarmup = False, ws_currentDay = currentDay wp, totalDays = totalDays',
        config = config', canProceed = True,
        ws_message = ''Warm-up complete! You can now use full automation features.'',
        restrictions = []\<rparr>
     else
       (let restrictions1 =
              [''Day '' @ show_int (currentDay wp) @ '' of '' @ show_days totalDays',
               ''Max actions today: '' @ show_int (maxActionsPerDay config')];
            restrictions2 = restrictions1 @
              (if maxCommentsPerDay config' = 0
               then [cross_mark @ '' Comments DISABLED (too risky for new accounts)'']
               else [''Max comments today: '' @ show_int (maxCommentsPerDay config')]);
            restrictions3 = restrictions2 @
              [''Actions must be spread over '' @ show_int (minActionSpread config')
                 @ ''+ hours'',
               ''Speed: '' @ join '', '' (map show_SpeedMode (allowedSpeed config'))
                 @ '' only''];
            restrictions4 = restrictions3 @
              (if restrictedToConnections config' = 1
               then [lock_sign @ '' Only engage with 1st-degree connections'']
               else if restrictedToConnections config' = 2
               then [lock_sign @ '' Only engage with 1st & 2nd-degree connections'']
               else []);
            restrictions5 = restrictions4 @
              (if requiresManualApproval config'
               then [warning_sign @ '' Manual approval required for each action'']
               else []);
            message0 = ''Warm-up phase: Day '' @ show_int (currentDay wp) @ ''/''
              @ show_days totalDays';
            message1 = (if wp_accountAge wp = THREE_TO_SIX_MONTHS
                        then message0 @ '' (STRICT protocol for 3-6 month accounts)''
                        else message0)
        in \<lparr>isInWarmup = True, ws_currentDay = currentDay wp, totalDays = totalDays',
            config = config', canProceed = True, ws_message = message1,
            restrictions = restrictions5\<rparr>))"

section \<open>The cooldown manager\<close>

text \<open>
  The keys of \<open>chrome.storage.local\<close> that the cooldown manager reads and writes, typed
  as the storage schema declares them; \<open>None\<close> is an absent key.
\<close>

record Storage =
  cooldownEnd :: "int option"
  cooldownReason :: "string option"
  automationEnabled :: "bool option"
  warningCount :: "int option"

definition emptyStorage :: Storage where
  "emptyStorage =
     \<lparr>cooldownEnd = None, cooldownReason = None, automationEnabled = None,
      warningCount = None\<rparr>"

text \<open>\<open>data.warningCount || 0\<close>: an absent key and a stored zero both read as 0.\<close>

definition getWarningCount :: "Storage \<Rightarrow> int" where
  "getWarningCount st = (case warningCount st of None \<Rightarrow> 0 | Some c \<Rightarrow> if c = 0 then 0 else c)"

definition enable48HourCooldown :: "int \<Rightarrow> string \<Rightarrow> Storage \<Rightarrow> Storage" where
  "enable48HourCooldown now reason' st =
     (let cooldownEnd' = now + 48 * 60 * 60 * 1000 in
      st\<lparr>cooldownEnd := Some cooldownEnd',
         cooldownReason := Some reason',
         automationEnabled := Some False,
         warningCount := Some (getWarningCount st + 1)\<rparr>)"

definition hasPermanentRestrictions :: "Storage \<Rightarrow> bool" where
  "hasPermanentRestrictions st = (let count = getWarningCount st in count \<ge> 2)"

definition getRestrictionMultiplier :: "Storage \<Rightarrow> real" where
  "getRestrictionMultiplier st =
     (let count = getWarningCount st in
      if count = 0 then 1.0 else if count = 1 then 0.75 else 0.5)"

record CooldownStatus =
  inCooldown :: bool
  remainingTime :: "int option"
  cd_reason :: "string option"

text \<open>\<open>isInCooldown\<close> returns the status and the storage, cleared when the cooldown expired.\<close>

definition isInCooldown :: "int \<Rightarrow> Storage \<Rightarrow> CooldownStatus \<times> Storage" where
  "isInCooldown now st =
     (case cooldownEnd st of
        None \<Rightarrow> (\<lparr>inCooldown = False, remainingTime = None, cd_reason = None\<rparr>, st)
      | Some e \<Rightarrow>
          if e = 0 then (\<lparr>inCooldown = False, remainingTime = None, cd_reason = None\<rparr>, st)
          else if now < e then
            (\<lparr>inCooldown = True, remainingTime = Some (e - now),
              cd_reason = Some (case cooldownReason st of
                                 None \<Rightarrow> ''Safety cooldown active''
                               | Some r \<Rightarrow> if r = [] then ''Safety cooldown active'' else r)\<rparr>,
             st)
          else
            (\<lparr>inCooldown = False, remainingTime = None, cd_reason = None\<rparr>,
             st\<lparr>cooldownEnd := None, cooldownReason := None\<rparr>))"

section \<open>The detection system\<close>

datatype SignalType = warning | error | performance | pattern

text \<open>The values stored in a signal's \<open>details\<close> bag.\<close>

datatype detail = DNum real | DStr string

record DetectionSignal =
  sig_type :: SignalType
  severity :: AlertLevel
  message :: string
  timestamp :: int
  details :: "(string \<times> detail) list"

subsection \<open>The page\<close>

text \<open>
  What the detector reads of the DOM: for a selector the elements it matches, in document
  order, and the address of the page. Of an element: its text, its markup, the names of
  its attributes and its classes.
\<close>

record element =
  textContent :: "string option"
  outerHTML :: string
  attributeNames :: "string list"
  classList :: "string list"

record document =
  querySelectorAll :: "string \<Rightarrow> element list"
  location_href :: string

definition querySelector :: "document \<Rightarrow> string \<Rightarrow> element option" where
  "querySelector doc selector =
     (case querySelectorAll doc selector of [] \<Rightarrow> None | e # es \<Rightarrow> Some e)"

text \<open>\<open>String.prototype.includes\<close> and \<open>toLowerCase\<close> (on the ASCII letters).\<close>

fun str_includes :: "string \<Rightarrow> string \<Rightarrow> bool" where
  "str_includes [] p = (p = [])"
| "str_includes (c # cs) p = (take (length p) (c # cs) = p \<or> str_includes cs p)"

definition toLowerChar :: "char \<Rightarrow> char" where
  "toLowerChar c =
     (case map_of (zip ''ABCDEFGHIJKLMNOPQRSTUVWXYZ'' ''abcdefghijklmnopqrstuvwxyz'') c of
        None \<Rightarrow> c | Some l \<Rightarrow> l)"

definition toLowerCase :: "string \<Rightarrow> string" where
  "toLowerCase s = map toLowerChar s"

definition WARNING_PATTERNS :: "string list" where
  "WARNING_PATTERNS =
     [''You're doing this too often'',
      ''Slow down'',
      ''Unusual activity'',
      ''We noticed some unusual activity'',
      ''Something went wrong'',
      ''Security check required'',
      ''Verify you're human'',
      ''Too many requests'',
      ''Rate limit'',
      ''Temporarily restricted'']"

definition WARNING_SELECTORS :: "string list" where
  "WARNING_SELECTORS =
     [''.artdeco-modal__content'',
      ''.artdeco-toasts__toast'',
      ''.security-challenge-container'',
      ''[data-test=\"rate-limit-message\"]'',
      ''.artdeco-inline-feedback'',
      ''.artdeco-modal--layer-default'',
      ''.error-modal'',
      ''.msg-overlay-bubble-header'']"

definition detectCaptcha :: "document \<Rightarrow> bool" where
  "detectCaptcha doc =
     (let captchaSelectors =
        [''iframe[src*=\"recaptcha\"]'',
         ''iframe[src*=\"captcha\"]'',
         ''.g-recaptcha'',
         ''#px-captcha'',
         ''.security-challenge-container'']
      in list_ex (\<lambda>selector. querySelector doc selector \<noteq> None) captchaSelectors)"

definition detectDisabledActions :: "document \<Rightarrow> bool" where
  "detectDisabledActions doc =
     (let actionButtons =
        querySelectorAll doc
          ''[data-control-name*=\"like\"], [data-control-name*=\"comment\"]'';
          disabledCount =
            length (filter (\<lambda>button. List.member (attributeNames button) ''disabled''
                                    \<or> List.member (classList button) ''disabled'')
                      actionButtons)
      in real disabledCount > real (length actionButtons) * 0.5)"

definition captureElementScreenshot :: "element \<Rightarrow> string" where
  "captureElementScreenshot el = take 500 (outerHTML el)"

text \<open>
  \<open>detectDOMWarnings\<close> pushes its signals in four steps, in this order; each step is a
  function here and the result is their concatenation. \<open>now\<close> is \<open>Date.now()\<close>.
\<close>

definition warningPatternSignals :: "int \<Rightarrow> document \<Rightarrow> DetectionSignal list" where
  "warningPatternSignals now doc =
     concat (map (\<lambda>selector.
       concat (map (\<lambda>el.
         (let text = (case textContent el of None \<Rightarrow> [] | Some t \<Rightarrow> t) in
          concat (map (\<lambda>pat.
            if str_includes (toLowerCase text) (toLowerCase pat) then
              [\<lparr>sig_type = warning, severity = DEFCON5,
                message = ''LinkedIn warning detected: \"'' @ pat @ ''\"'',
                timestamp = now,
                details = [(''selector'', DStr selector), (''fullText'', DStr text),
                           (''pattern'', DStr pat),
                           (''screenshot'', DStr (captureElementScreenshot el))]\<rparr>]
            else []) WARNING_PATTERNS)))
         (querySelectorAll doc selector)))
       WARNING_SELECTORS)"

definition captchaSignals :: "int \<Rightarrow> document \<Rightarrow> DetectionSignal list" where
  "captchaSignals now doc =
     (if detectCaptcha doc then
        [\<lparr>sig_type = warning, severity = DEFCON5,
          message = ''CAPTCHA challenge detected'', timestamp = now,
          details = [(''type'', DStr ''captcha'')]\<rparr>]
      else [])"

definition disabledActionSignals :: "int \<Rightarrow> document \<Rightarrow> DetectionSignal list" where
  "disabledActionSignals now doc =
     (if detectDisabledActions doc then
        [\<lparr>sig_type = warning, severity = DEFCON4,
          message = ''Action buttons appear disabled'', timestamp = now,
          details = [(''type'', DStr ''disabled-ui'')]\<rparr>]
      else [])"

definition checkpointSignals :: "int \<Rightarrow> document \<Rightarrow> DetectionSignal list" where
  "checkpointSignals now doc =
     (if str_includes (location_href doc) ''checkpoint'' \<or> str_includes (location_href doc) ''security''
      then
        [\<lparr>sig_type = warning, severity = DEFCON5,
          message = ''Redirected to security checkpoint'', timestamp = now,
          details = [(''url'', DStr (location_href doc))]\<rparr>]
      else [])"

definition detectDOMWarnings :: "int \<Rightarrow> document \<Rightarrow> DetectionSignal list" where
  "detectDOMWarnings now doc =
     warningPatternSignals now doc @ captchaSignals now doc
       @ disabledActionSignals now doc @ checkpointSignals now doc"

subsection \<open>The detector's state\<close>

record DetectionSystem =
  ds_sessionState :: SessionState
  baselinePerformance :: "string \<rightharpoonup> int"
  consecutiveFailures :: int
  lastActionTimes :: "int list"

definition initializeBaselines :: "DetectionSystem \<Rightarrow> DetectionSystem" where
  "initializeBaselines det =
     det\<lparr>baselinePerformance :=
           (baselinePerformance det)(''pageLoad'' \<mapsto> 3000, ''actionComplete'' \<mapsto> 2000,
                                     ''networkRequest'' \<mapsto> 1500)\<rparr>"

text \<open>The constructor: the field initialisers, then \<open>initializeBaselines\<close>.\<close>

definition new_DetectionSystem :: "SessionState \<Rightarrow> DetectionSystem" where
  "new_DetectionSystem ss =
     initializeBaselines
       \<lparr>ds_sessionState = ss, baselinePerformance = Map.empty, consecutiveFailures = 0,
        lastActionTimes = []\<rparr>"

text \<open>
  \<open>detectBehavioralAnomalies\<close> returns its signals and the detector with the updated
  failure counter.
\<close>

definition detectBehavioralAnomalies ::
  "int \<Rightarrow> int \<Rightarrow> bool \<Rightarrow> DetectionSystem \<Rightarrow> DetectionSignal list \<times> DetectionSystem" where
  "detectBehavioralAnomalies now actionDuration actionSuccess det =
     (let baseline = (case baselinePerformance det ''actionComplete'' of
                        None \<Rightarrow> 2000 | Some b \<Rightarrow> if b = 0 then 2000 else b);
          det' = (if \<not> actionSuccess
                  then det\<lparr>consecutiveFailures := consecutiveFailures det + 1\<rparr>
                  else det\<lparr>consecutiveFailures := 0\<rparr>);
          signals1 =
            (if consecutiveFailures det' \<ge> 3 then
               [\<lparr>sig_type = error, severity = DEFCON4,
                 message = show_int (consecutiveFailures det')
                   @ '' consecutive action failures detected'',
                 timestamp = now,
                 details = [(''consecutiveFailures'',
                             DNum (real_of_int (consecutiveFailures det')))]\<rparr>]
             else []);
          signals2 =
            (if actionDuration > baseline * 3 then
               [\<lparr>sig_type = performance, severity = DEFCON4,
                 message = ''Action took '' @ show_int actionDuration @ ''ms (3x normal)'',
                 timestamp = now,
                 details = [(''duration'', DNum (real_of_int actionDuration)),
                            (''baseline'', DNum (real_of_int baseline)),
                            (''ratio'',
                             DNum (real_of_int actionDuration / real_of_int baseline))]\<rparr>]
             else []);
          signals3 =
            (if actionSuccess \<and> actionDuration < 500 then
               [\<lparr>sig_type = pattern, severity = DEFCON3,
                 message = ''Suspiciously fast action completion (possible shadow ban)'',
                 timestamp = now,
                 details = [(''duration'', DNum (real_of_int actionDuration))]\<rparr>]
             else [])
      in (signals1 @ signals2 @ signals3, det'))"

definition recordActionTime :: "int \<Rightarrow> DetectionSystem \<Rightarrow> DetectionSystem" where
  "recordActionTime ts det =
     (let pushed = lastActionTimes det @ [ts]
      in det\<lparr>lastActionTimes := (if length pushed > 20 then tl pushed else pushed)\<rparr>)"

definition getDailyLimit :: "DetectionSystem \<Rightarrow> int" where
  "getDailyLimit det = (if isWarmupPhase (ds_sessionState det) then 25 else 100)"

text \<open>The timing statistic of \<open>detectPatternRisks\<close>: the loop and the two reductions.\<close>

definition intervalsOf :: "int list \<Rightarrow> int list" where
  "intervalsOf actionTimes =
     map (\<lambda>i. actionTimes ! i - actionTimes ! (i - 1)) [1..<length actionTimes]"

definition avgIntervalOf :: "int list \<Rightarrow> real" where
  "avgIntervalOf intervals = real_of_int (foldl (\<lambda>a b. a + b) 0 intervals) / real (length intervals)"

definition varianceOf :: "int list \<Rightarrow> real" where
  "varianceOf intervals =
     foldl (\<lambda>sum interval. sum + (real_of_int interval - avgIntervalOf intervals)\<^sup>2) 0 intervals
       / real (length intervals)"

definition stdDevOf :: "int list \<Rightarrow> real" where
  "stdDevOf intervals = sqrt (varianceOf intervals)"

text \<open>
  \<open>detectPatternRisks\<close> pushes its signals in three steps, in this order: the daily
  maximum, the session duration, the timing regularity.
\<close>

definition dailyLimitSignals :: "int \<Rightarrow> DetectionSystem \<Rightarrow> DetectionSignal list" where
  "dailyLimitSignals now det =
     (let dailyLimit = getDailyLimit det in
      if real_of_int (actionsToday (ds_sessionState det)) \<ge> real_of_int dailyLimit * 0.9 then
        [\<lparr>sig_type = pattern, severity = DEFCON2,
          message = ''Approaching daily action limit (90%)'', timestamp = now,
          details = [(''actionsToday'', DNum (real_of_int (actionsToday (ds_sessionState det)))),
                     (''limit'', DNum (real_of_int dailyLimit))]\<rparr>]
      else [])"

definition sessionDurationSignals :: "int \<Rightarrow> DetectionSystem \<Rightarrow> DetectionSignal list" where
  "sessionDurationSignals now det =
     (let sessionDuration = now - sessionStartTime (ds_sessionState det);
          sessionHours = real_of_int sessionDuration / (1000 * 60 * 60) in
      if sessionHours > 0.75 then
        [\<lparr>sig_type = pattern, severity = DEFCON2,
          message = ''Session duration exceeding safe limits'', timestamp = now,
          details = [(''sessionHours'', DNum sessionHours)]\<rparr>]
      else [])"

definition timingSignals :: "int \<Rightarrow> DetectionSystem \<Rightarrow> DetectionSignal list" where
  "timingSignals now det =
     (if length (lastActionTimes det) \<ge> 5 then
        (let intervals = intervalsOf (lastActionTimes det);
             avgInterval = avgIntervalOf intervals;
             stdDev = stdDevOf intervals in
         if stdDev < avgInterval * 0.15 then
           [\<lparr>sig_type = pattern, severity = DEFCON3,
             message = ''Action timing too consistent (bot-like pattern)'', timestamp = now,
             details = [(''avgInterval'', DNum avgInterval), (''stdDev'', DNum stdDev),
                        (''variationPercent'', DNum ((stdDev / avgInterval) * 100))]\<rparr>]
         else [])
      else [])"

definition detectPatternRisks :: "int \<Rightarrow> DetectionSystem \<Rightarrow> DetectionSignal list" where
  "detectPatternRisks now det =
     dailyLimitSignals now det @ sessionDurationSignals now det @ timingSignals now det"

section \<open>The humanization engine\<close>

record ReadingTime =
  short :: "int \<times> int"
  rt_medium :: "int \<times> int"
  long :: "int \<times> int"

record MicroPauses =
  beforeClick :: "int \<times> int"
  afterReading :: "int \<times> int"

record Breaks =
  mini :: "int \<times> int"
  br_medium :: "int \<times> int"
  sessionEnd :: int

record TimingConfig =
  baseDelay :: "int \<times> int"
  readingTime :: ReadingTime
  microPauses :: MicroPauses
  breaks :: Breaks

fun timingConfigOf :: "SpeedMode \<Rightarrow> TimingConfig" where
  "timingConfigOf ULTRA_SLOW =
     \<lparr>baseDelay = (45000, 75000),
      readingTime = \<lparr>short = (20000, 35000), rt_medium = (40000, 60000), long = (70000, 100000)\<rparr>,
      microPauses = \<lparr>beforeClick = (1500, 3000), afterReading = (2000, 5000)\<rparr>,
      breaks = \<lparr>mini = (5, 8), br_medium = (15, 25), sessionEnd = 20\<rparr>\<rparr>"
| "timingConfigOf SLOW =
     \<lparr>baseDelay = (35000, 55000),
      readingTime = \<lparr>short = (15000, 25000), rt_medium = (30000, 50000), long = (55000, 85000)\<rparr>,
      microPauses = \<lparr>beforeClick = (1000, 2000), afterReading = (1500, 3500)\<rparr>,
      breaks = \<lparr>mini = (3, 5), br_medium = (10, 18), sessionEnd = 30\<rparr>\<rparr>"
| "timingConfigOf MEDIUM =
     \<lparr>baseDelay = (25000, 45000),
      readingTime = \<lparr>short = (12000, 20000), rt_medium = (25000, 40000), long = (45000, 75000)\<rparr>,
      microPauses = \<lparr>beforeClick = (800, 2000), afterReading = (1000, 3000)\<rparr>,
      breaks = \<lparr>mini = (2, 4), br_medium = (8, 15), sessionEnd = 40\<rparr>\<rparr>"
| "timingConfigOf NORMAL =
     \<lparr>baseDelay = (20000, 40000),
      readingTime = \<lparr>short = (10000, 18000), rt_medium = (20000, 35000), long = (40000, 65000)\<rparr>,
      microPauses = \<lparr>beforeClick = (800, 1500), afterReading = (1000, 2500)\<rparr>,
      breaks = \<lparr>mini = (2, 4), br_medium = (8, 15), sessionEnd = 50\<rparr>\<rparr>"

definition getTimingConfig :: "SessionState \<Rightarrow> TimingConfig" where
  "getTimingConfig ss = timingConfigOf (speedMode ss)"

subsection \<open>The random source\<close>

text \<open>
  \<open>crypto.getRandomValues\<close> is a stream of bytes \<open>rnd\<close> read from a position that each
  call advances by the number of bytes it asked for. \<open>new Uint8Array(n)\<close> raises a
  \<open>RangeError\<close> for a negative or infinite \<open>n\<close>, which is \<open>bytesNeeded\<close> for a range
  between 0 and \<open>1/256\<close>; for a negative range \<open>Math.log2\<close> is \<open>NaN\<close>, the array is
  empty and the random value stays 0.
\<close>

datatype js_error = RangeError

text \<open>The \<open>%\<close> of JavaScript: the remainder has the sign of the dividend.\<close>

definition js_trunc :: "real \<Rightarrow> int" where
  "js_trunc x = (if x \<ge> 0 then \<lfloor>x\<rfloor> else \<lceil>x\<rceil>)"

definition js_rem :: "real \<Rightarrow> real \<Rightarrow> real" where
  "js_rem a b = a - b * real_of_int (js_trunc (a / b))"

text \<open>\<open>x << 8\<close> on a 32-bit signed integer, then an ordinary addition.\<close>

definition randomValueOf :: "8 word list \<Rightarrow> int" where
  "randomValueOf randomBytes =
     foldl (\<lambda>randomValue b. signed_take_bit 31 (push_bit 8 randomValue) + uint b) 0 randomBytes"

definition cryptoRandomRange ::
  "(nat \<Rightarrow> 8 word) \<Rightarrow> nat \<Rightarrow> real \<Rightarrow> real \<Rightarrow> js_error + (real \<times> nat)" where
  "cryptoRandomRange rnd pos min' max' =
     (let range = max' - min' in
      if range < 0 then Inr (min', pos)
      else if range \<le> 1 / 256 then Inl RangeError
      else
        (let bytesNeeded = nat \<lceil>log 2 range / 8\<rceil>;
             randomBytes = map rnd [pos..<pos + bytesNeeded];
             randomValue = randomValueOf randomBytes
         in Inr (min' + js_rem (real_of_int randomValue) range, pos + bytesNeeded)))"

definition calculateFatigueMultiplier :: "SessionState \<Rightarrow> real" where
  "calculateFatigueMultiplier ss =
     (let actionsThisSession' = actionsThisSession ss in
      if actionsThisSession' \<le> 10 then 1.0
      else if actionsThisSession' \<le> 20 then 1.1
      else if actionsThisSession' \<le> 30 then 1.25
      else if actionsThisSession' \<le> 40 then 1.4
      else 1.5)"

text \<open>\<open>hour\<close> is \<open>new Date().getHours()\<close>.\<close>

definition calculateDailyRhythmMultiplier :: "int \<Rightarrow> real" where
  "calculateDailyRhythmMultiplier hour =
     (if hour \<ge> 9 \<and> hour < 11 then 1.0
      else if hour \<ge> 11 \<and> hour < 13 then 1.3
      else if hour \<ge> 13 \<and> hour < 15 then 1.0
      else if hour \<ge> 15 \<and> hour < 17 then 1.2
      else if hour \<ge> 17 \<and> hour < 21 then 1.4
      else 2.0)"

text \<open>
  \<open>calculateActionDelay\<close> returns the delay and the position of the random stream after
  its three draws, or the error a draw raised.
\<close>

definition calculateActionDelay ::
  "(nat \<Rightarrow> 8 word) \<Rightarrow> nat \<Rightarrow> int \<Rightarrow> SessionState \<Rightarrow> js_error + (real \<times> nat)" where
  "calculateActionDelay rnd pos hour ss =
     (let config = getTimingConfig ss;
          (min', max') = baseDelay config
      in case cryptoRandomRange rnd pos (real_of_int min') (real_of_int max') of
           Inl e \<Rightarrow> Inl e
         | Inr (delay0, pos1) \<Rightarrow>
             (let variation = delay0 * 0.3
              in case cryptoRandomRange rnd pos1 (- variation) variation of
                   Inl e \<Rightarrow> Inl e
                 | Inr (v, pos2) \<Rightarrow>
                     (let delay1 = delay0 + v;
                          fatigueMultiplier = calculateFatigueMultiplier ss;
                          delay2 = delay1 * fatigueMultiplier;
                          rhythmMultiplier = calculateDailyRhythmMultiplier hour;
                          delay3 = delay2 * rhythmMultiplier
                      in case cryptoRandomRange rnd pos2 (- 2000) 2000 of
                           Inl e \<Rightarrow> Inl e
                         | Inr (entropy, pos3) \<Rightarrow>
                             Inr (max (delay3 + entropy) 15000, pos3))))"

section \<open>Scenarios\<close>

text \<open>A feed page whose only like button is disabled.\<close>

definition disabledButtonsPage :: document where
  "disabledButtonsPage =
     \<lparr>querySelectorAll =
        (\<lambda>selector.
           if selector = ''[data-control-name*=\"like\"], [data-control-name*=\"comment\"]''
           then [\<lparr>textContent = Some ''Like'', outerHTML = ''<button disabled>Like</button>'',
                  attributeNames = [''data-control-name'', ''disabled''], classList = []\<rparr>]
           else []),
      location_href = ''https://www.linkedin.com/feed/''\<rparr>"

text \<open>
  A checkpoint page: a challenge container with a warning phrase, a disabled like button,
  a checkpoint address.
\<close>

definition checkpointPage :: document where
  "checkpointPage =
     \<lparr>querySelectorAll =
        (\<lambda>selector.
           if selector = ''.security-challenge-container''
           then [\<lparr>textContent = Some ''Slow down'',
                  outerHTML = ''<div class=\"security-challenge-container\">Slow down</div>'',
                  attributeNames = [''class''],
                  classList = [''security-challenge-container'']\<rparr>]
           else if selector
                     = ''[data-control-name*=\"like\"], [data-control-name*=\"comment\"]''
           then [\<lparr>textContent = Some ''Like'',
                  outerHTML = ''<button class=\"disabled\">Like</button>'',
                  attributeNames = [''data-control-name'', ''class''],
                  classList = [''disabled'']\<rparr>]
           else []),
      location_href = ''https://www.linkedin.com/checkpoint/challenge''\<rparr>"

text \<open>
  A sequence of action outcomes \<open>(now, duration, success)\<close> reported to
  \<open>detectBehavioralAnomalies\<close> one after the other, and the number of failures at its end,
  back to the last success.
\<close>

definition feedReports :: "DetectionSystem \<Rightarrow> (int \<times> int \<times> bool) list \<Rightarrow> DetectionSystem" where
  "feedReports det reports =
     foldl (\<lambda>d (now, actionDuration, actionSuccess).
              snd (detectBehavioralAnomalies now actionDuration actionSuccess d)) det reports"

definition failuresSinceLastSuccess :: "(int \<times> int \<times> bool) list \<Rightarrow> int" where
  "failuresSinceLastSuccess reports =
     int (length (takeWhile (\<lambda>(now, actionDuration, actionSuccess). \<not> actionSuccess)
                    (rev reports)))"

text \<open>A sequence of timestamps passed to \<open>recordActionTime\<close> one after the other.\<close>

definition recordAll :: "DetectionSystem \<Rightarrow> int list \<Rightarrow> DetectionSystem" where
  "recordAll det timestamps = foldl (\<lambda>d ts. recordActionTime ts d) det timestamps"

definition idleSession :: SessionState where
  "idleSession =
     \<lparr>actionsToday = 0, actionsThisSession = 0, sessionStartTime = 0, lastActionTime = 0,
      alertLevel = DEFCON1, isWarmupPhase = False, warmupDay = 1,
      accountAge = OVER_TWO_YEARS, speedMode = MEDIUM\<rparr>"

section \<open>Properties of the warm-up protocol\<close>

text \<open>
  C1. For the account age "under 3 months" and every day number (zero and negative ones
  too), \<open>getWarmupConfig\<close> allows zero actions and zero comments per day, and
  \<open>canPerformAction\<close> denies every kind of action, whatever the counters, the connection
  degree and the speed mode.
\<close>

theorem under_3_months_blocked:
  "maxActionsPerDay (getWarmupConfig
       \<lparr>wp_accountAge = UNDER_3_MONTHS, warmupStartDate = start, currentDay = day\<rparr>) = 0
   \<and> maxCommentsPerDay (getWarmupConfig
       \<lparr>wp_accountAge = UNDER_3_MONTHS, warmupStartDate = start, currentDay = day\<rparr>) = 0
   \<and> allowed (canPerformAction
       \<lparr>wp_accountAge = UNDER_3_MONTHS, warmupStartDate = start, currentDay = day\<rparr>
       actionType actionsToday' commentsToday connectionDegree currentSpeed) = False"
  by (simp add: getWarmupConfig_def canPerformAction_def Let_def)

text \<open>
  C4 as stated fails: the day number has no lower clamp. A warm-up start one day in the
  future gives day 0, where \<open>max(1, \<dots>)\<close> is 1.
\<close>

theorem currentDay_future_start_counterexample:
  "currentDay (new_WarmupProtocol 0 THREE_TO_SIX_MONTHS 86400000)
     \<noteq> max 1 (\<lfloor>real_of_int (0 - 86400000) / 86400000\<rfloor> + 1)
   \<and> currentDay (new_WarmupProtocol 0 THREE_TO_SIX_MONTHS 86400000) < 1"
proof -
  have "\<lfloor>- 1 :: real\<rfloor> = - 1" by (rule floor_unique) simp_all
  then show ?thesis by (simp add: new_WarmupProtocol_def calculateCurrentDay_def)
qed

text \<open>
  C4, amended. The day number is \<open>floor((now - warmupStart)/86400000) + 1\<close> for every start
  and current time. When the start is not in the future this is \<open>max(1, \<dots>)\<close> and at least
  1; when the start is in the future it is at most 0.
\<close>

theorem currentDay_formula:
  "currentDay (new_WarmupProtocol now age start)
     = \<lfloor>real_of_int (now - start) / 86400000\<rfloor> + 1
   \<and> (start \<le> now \<longrightarrow>
        currentDay (new_WarmupProtocol now age start)
          = max 1 (\<lfloor>real_of_int (now - start) / 86400000\<rfloor> + 1)
        \<and> 1 \<le> currentDay (new_WarmupProtocol now age start))
   \<and> (now < start \<longrightarrow> currentDay (new_WarmupProtocol now age start) \<le> 0)"
proof -
  have d: "currentDay (new_WarmupProtocol now age start)
             = \<lfloor>real_of_int (now - start) / 86400000\<rfloor> + 1"
    by (simp add: new_WarmupProtocol_def calculateCurrentDay_def)
  have pos: "0 \<le> \<lfloor>real_of_int (now - start) / 86400000\<rfloor>" if "start \<le> now"
    using that by simp
  have neg: "\<lfloor>real_of_int (now - start) / 86400000\<rfloor> < 0" if "now < start"
    using that by (simp add: floor_less_iff)
  define x where "x = \<lfloor>real_of_int (now - start) / 86400000\<rfloor>"
  show ?thesis
    unfolding d using pos neg unfolding x_def [symmetric] by (auto simp add: max_def)
qed

theorem currentDay_formula_witness:
  "(0::int) \<le> 172800000
   \<and> currentDay (new_WarmupProtocol 172800000 THREE_TO_SIX_MONTHS 0) = 3
   \<and> (172800000::int) < 172800001
   \<and> currentDay (new_WarmupProtocol 172800000 THREE_TO_SIX_MONTHS 172800001) \<le> 0"
  using currentDay_formula [of 172800000 THREE_TO_SIX_MONTHS 0]
    currentDay_formula [of 172800000 THREE_TO_SIX_MONTHS 172800001]
  by simp

text \<open>
  C5. On day 1 of the 3-6 months tier the comment cap is 0. A comment request with every
  counter in range (no action and no comment yet today, a 1st-degree connection, an
  allowed speed) is denied, but by the comment-limit rule, which comes first and fires for
  every count that is not negative: the reason is the "limit reached" one, not the
  "comments disabled" one.
\<close>

theorem comment_denied_reason_at_zero_cap:
  "canPerformAction
     \<lparr>wp_accountAge = THREE_TO_SIX_MONTHS, warmupStartDate = 0, currentDay = 1\<rparr>
     comment 0 0 1 ULTRA_SLOW
   = \<lparr>allowed = False, reason = Some ''Daily comment limit reached (0).''\<rparr>"
  by (simp add: getWarmupConfig_def canPerformAction_def Let_def show_int_def show_nat.simps)

text \<open>
  The same for every configuration with a comment cap of 0 and every action count under
  the daily cap: the "comments disabled" rule is reached by a negative comment count only.
\<close>

lemma comments_disabled_rule_shadowed:
  assumes "maxCommentsPerDay (getWarmupConfig wp) = 0"
    and "actionsToday' < maxActionsPerDay (getWarmupConfig wp)"
  shows "canPerformAction wp comment actionsToday' commentsToday connectionDegree currentSpeed
     = (if 0 \<le> commentsToday
        then \<lparr>allowed = False, reason = Some ''Daily comment limit reached (0).''\<rparr>
        else \<lparr>allowed = False, reason = Some
          ''Comments disabled during early warm-up phase (too risky for new accounts).''\<rparr>)"
  using assms by (simp add: canPerformAction_def Let_def show_int_def show_nat.simps)

text \<open>
  C6 as stated fails: ten days after its 14 days of warm-up, the 6-12 months tier is at
  75%, not 60%.
\<close>

theorem post_warmup_six_to_twelve_counterexample:
  "percentage (getPostWarmupLimits
      \<lparr>wp_accountAge = SIX_TO_TWELVE_MONTHS, warmupStartDate = 0, currentDay = 14 + 10\<rparr>)
     \<noteq> 60"
  by (simp add: getPostWarmupLimits_def getTotalWarmupDays_def Let_def)

text \<open>
  C6, amended. With \<open>d\<close> the days since the end of the warm-up (28 days for the 3-6
  months tier, 14 for the 6-12 months tier): the 3-6 months tier gets 60% up to 30 days,
  80% up to 60 days, then 100%; the 6-12 months tier gets 75% up to 30 days, then 100%;
  every other tier gets 100% on every day.
\<close>

theorem post_warmup_ramp:
  "getPostWarmupLimits
     \<lparr>wp_accountAge = THREE_TO_SIX_MONTHS, warmupStartDate = start, currentDay = 28 + d\<rparr>
     = (if d \<le> 30 then \<lparr>dailyActions = 60, percentage = 60\<rparr>
        else if d \<le> 60 then \<lparr>dailyActions = 80, percentage = 80\<rparr>
        else \<lparr>dailyActions = 100, percentage = 100\<rparr>)
   \<and> getPostWarmupLimits
     \<lparr>wp_accountAge = SIX_TO_TWELVE_MONTHS, warmupStartDate = start, currentDay = 14 + d\<rparr>
     = (if d \<le> 30 then \<lparr>dailyActions = 75, percentage = 75\<rparr>
        else \<lparr>dailyActions = 100, percentage = 100\<rparr>)
   \<and> (age \<noteq> THREE_TO_SIX_MONTHS \<and> age \<noteq> SIX_TO_TWELVE_MONTHS \<longrightarrow>
        getPostWarmupLimits \<lparr>wp_accountAge = age, warmupStartDate = start, currentDay = day\<rparr>
          = \<lparr>dailyActions = 100, percentage = 100\<rparr>)"
  by (simp add: getPostWarmupLimits_def getTotalWarmupDays_def Let_def)

theorem post_warmup_ramp_witness:
  "percentage (getPostWarmupLimits
      \<lparr>wp_accountAge = THREE_TO_SIX_MONTHS, warmupStartDate = 0, currentDay = 28 + 45\<rparr>) = 80
   \<and> percentage (getPostWarmupLimits
      \<lparr>wp_accountAge = SIX_TO_TWELVE_MONTHS, warmupStartDate = 0, currentDay = 14 + 45\<rparr>) = 100
   \<and> ONE_TO_TWO_YEARS \<noteq> THREE_TO_SIX_MONTHS \<and> ONE_TO_TWO_YEARS \<noteq> SIX_TO_TWELVE_MONTHS
   \<and> percentage (getPostWarmupLimits
      \<lparr>wp_accountAge = ONE_TO_TWO_YEARS, warmupStartDate = 0, currentDay = 8\<rparr>) = 100"
  using post_warmup_ramp [of 0 45 ONE_TO_TWO_YEARS 8] by simp

text \<open>
  C7 as stated fails: for an account age outside the five tiers the configuration allows
  20 actions a day, more than the blocked tier's 0.
\<close>

theorem unknown_age_not_strictest_counterexample:
  "\<not> maxActionsPerDay (getWarmupConfig
         \<lparr>wp_accountAge = OTHER_AGE ''LEGACY'', warmupStartDate = 0, currentDay = 1\<rparr>)
       \<le> maxActionsPerDay (getWarmupConfig
         \<lparr>wp_accountAge = UNDER_3_MONTHS, warmupStartDate = 0, currentDay = 1\<rparr>)"
  by (simp add: getWarmupConfig_def)

text \<open>
  C7, amended. For an account age outside the five tiers, \<open>getWarmupConfig\<close> returns on
  every day the default profile (20 actions and 5 comments a day, a spread of 4 hours, the
  slow speed only, connections up to the 2nd degree, no manual approval), not the
  strictest one; and no warm-up or cooldown query raises: \<open>getTotalWarmupDays\<close> returns
  14, \<open>canPerformAction\<close>, \<open>getPostWarmupLimits\<close> and \<open>getWarmupStatus\<close> return the
  results below, computed from that profile, and the cooldown queries return for every
  store.
\<close>

theorem unknown_age_default_profile:
  "getWarmupConfig \<lparr>wp_accountAge = OTHER_AGE v, warmupStartDate = start, currentDay = day\<rparr>
     = \<lparr>maxActionsPerDay = 20, maxCommentsPerDay = 5, minActionSpread = 4,
        allowedSpeed = [SLOW], restrictedToConnections = 2, requiresManualApproval = False\<rparr>
   \<and> getTotalWarmupDays
       \<lparr>wp_accountAge = OTHER_AGE v, warmupStartDate = start, currentDay = day\<rparr> = Days 14
   \<and> canPerformAction
       \<lparr>wp_accountAge = OTHER_AGE v, warmupStartDate = start, currentDay = day\<rparr>
       actionType actionsToday' commentsToday connectionDegree currentSpeed
     = (if actionsToday' \<ge> 20 then
          \<lparr>allowed = False,
           reason = Some (''Daily action limit reached (20). Warm-up Day ''
             @ show_int day @ ''/14.'')\<rparr>
        else if actionType = comment \<and> commentsToday \<ge> 5 then
          \<lparr>allowed = False, reason = Some ''Daily comment limit reached (5).''\<rparr>
        else if connectionDegree > 2 then
          \<lparr>allowed = False,
           reason = Some
             ''Can only engage with 1st & 2nd-degree connections during warm-up.''\<rparr>
        else if currentSpeed \<noteq> SLOW then
          \<lparr>allowed = False,
           reason = Some (''Speed mode '' @ [CHR 0x27] @ show_SpeedMode currentSpeed
             @ [CHR 0x27] @ '' not allowed. Use: SLOW.'')\<rparr>
        else \<lparr>allowed = True, reason = None\<rparr>)
   \<and> getPostWarmupLimits
       \<lparr>wp_accountAge = OTHER_AGE v, warmupStartDate = start, currentDay = day\<rparr>
     = \<lparr>dailyActions = 100, percentage = 100\<rparr>
   \<and> getWarmupStatus
       \<lparr>wp_accountAge = OTHER_AGE v, warmupStartDate = start, currentDay = day\<rparr>
     = (if day \<le> 14 then
          \<lparr>isInWarmup = True, ws_currentDay = day, totalDays = Days 14,
           config = \<lparr>maxActionsPerDay = 20, maxCommentsPerDay = 5, minActionSpread = 4,
             allowedSpeed = [SLOW], restrictedToConnections = 2,
             requiresManualApproval = False\<rparr>,
           canProceed = True,
           ws_message = ''Warm-up phase: Day '' @ show_int day @ ''/14'',
           restrictions =
             [''Day '' @ show_int day @ '' of 14'',
              ''Max actions today: 20'',
              ''Max comments today: 5'',
              ''Actions must be spread over 4+ hours'',
              ''Speed: SLOW only'',
              lock_sign @ '' Only engage with 1st & 2nd-degree connections'']\<rparr>
        else
          \<lparr>isInWarmup = False, ws_currentDay = day, totalDays = Days 14,
           config = \<lparr>maxActionsPerDay = 20, maxCommentsPerDay = 5, minActionSpread = 4,
             allowedSpeed = [SLOW], restrictedToConnections = 2,
             requiresManualApproval = False\<rparr>,
           canProceed = True,
           ws_message = ''Warm-up complete! You can now use full automation features.'',
           restrictions = []\<rparr>)
   \<and> fst (isInCooldown now st)
     = (if (\<exists>e. cooldownEnd st = Some e \<and> e \<noteq> 0 \<and> now < e) then
          \<lparr>inCooldown = True, remainingTime = Some (the (cooldownEnd st) - now),
           cd_reason = Some (if cooldownReason st = None \<or> cooldownReason st = Some []
                             then ''Safety cooldown active''
                             else the (cooldownReason st))\<rparr>
        else \<lparr>inCooldown = False, remainingTime = None, cd_reason = None\<rparr>)
   \<and> hasPermanentRestrictions st = (2 \<le> getWarningCount st)
   \<and> getRestrictionMultiplier st
     = (if getWarningCount st = 0 then 1 else if getWarningCount st = 1 then 3 / 4 else 1 / 2)
   \<and> getWarningCount st = (if warningCount st = None then 0 else the (warningCount st))"
proof -
  let ?wp = "\<lparr>wp_accountAge = OTHER_AGE v, warmupStartDate = start, currentDay = day\<rparr>"
  have c: "getWarmupConfig ?wp
     = \<lparr>maxActionsPerDay = 20, maxCommentsPerDay = 5, minActionSpread = 4,
        allowedSpeed = [SLOW], restrictedToConnections = 2, requiresManualApproval = False\<rparr>"
    by (simp add: getWarmupConfig_def)
  have t: "getTotalWarmupDays ?wp = Days 14"
    by (simp add: getTotalWarmupDays_def)
  have twenty: "show_int 20 = ''20''" "show_int 5 = ''5''" "show_int 4 = ''4''"
    "show_int 14 = ''14''"
    by (simp_all add: show_int_def show_nat.simps)
  have p: "canPerformAction ?wp actionType actionsToday' commentsToday connectionDegree
             currentSpeed
     = (if actionsToday' \<ge> 20 then
          \<lparr>allowed = False,
           reason = Some (''Daily action limit reached (20). Warm-up Day ''
             @ show_int day @ ''/14.'')\<rparr>
        else if actionType = comment \<and> commentsToday \<ge> 5 then
          \<lparr>allowed = False, reason = Some ''Daily comment limit reached (5).''\<rparr>
        else if connectionDegree > 2 then
          \<lparr>allowed = False,
           reason = Some
             ''Can only engage with 1st & 2nd-degree connections during warm-up.''\<rparr>
        else if currentSpeed \<noteq> SLOW then
          \<lparr>allowed = False,
           reason = Some (''Speed mode '' @ [CHR 0x27] @ show_SpeedMode currentSpeed
             @ [CHR 0x27] @ '' not allowed. Use: SLOW.'')\<rparr>
        else \<lparr>allowed = True, reason = None\<rparr>)"
    unfolding canPerformAction_def c t Let_def
    by (auto simp add: twenty getConnectionDegreeText_def)
  have l: "getPostWarmupLimits ?wp = \<lparr>dailyActions = 100, percentage = 100\<rparr>"
    by (simp add: getPostWarmupLimits_def)
  have s: "getWarmupStatus ?wp
     = (if day \<le> 14 then
          \<lparr>isInWarmup = True, ws_currentDay = day, totalDays = Days 14,
           config = \<lparr>maxActionsPerDay = 20, maxCommentsPerDay = 5, minActionSpread = 4,
             allowedSpeed = [SLOW], restrictedToConnections = 2,
             requiresManualApproval = False\<rparr>,
           canProceed = True,
           ws_message = ''Warm-up phase: Day '' @ show_int day @ ''/14'',
           restrictions =
             [''Day '' @ show_int day @ '' of 14'',
              ''Max actions today: 20'',
              ''Max comments today: 5'',
              ''Actions must be spread over 4+ hours'',
              ''Speed: SLOW only'',
              lock_sign @ '' Only engage with 1st & 2nd-degree connections'']\<rparr>
        else
          \<lparr>isInWarmup = False, ws_currentDay = day, totalDays = Days 14,
           config = \<lparr>maxActionsPerDay = 20, maxCommentsPerDay = 5, minActionSpread = 4,
             allowedSpeed = [SLOW], restrictedToConnections = 2,
             requiresManualApproval = False\<rparr>,
           canProceed = True,
           ws_message = ''Warm-up complete! You can now use full automation features.'',
           restrictions = []\<rparr>)"
    unfolding getWarmupStatus_def c t Let_def
    by (simp add: twenty)
  have i: "fst (isInCooldown now st)
     = (if (\<exists>e. cooldownEnd st = Some e \<and> e \<noteq> 0 \<and> now < e) then
          \<lparr>inCooldown = True, remainingTime = Some (the (cooldownEnd st) - now),
           cd_reason = Some (if cooldownReason st = None \<or> cooldownReason st = Some []
                             then ''Safety cooldown active''
                             else the (cooldownReason st))\<rparr>
        else \<lparr>inCooldown = False, remainingTime = None, cd_reason = None\<rparr>)"
    by (auto simp add: isInCooldown_def split: option.splits)
  have h: "hasPermanentRestrictions st = (2 \<le> getWarningCount st)"
    by (simp add: hasPermanentRestrictions_def)
  have m: "getRestrictionMultiplier st
     = (if getWarningCount st = 0 then 1 else if getWarningCount st = 1 then 3 / 4 else 1 / 2)"
    by (simp add: getRestrictionMultiplier_def)
  have w: "getWarningCount st = (if warningCount st = None then 0 else the (warningCount st))"
    by (auto simp add: getWarningCount_def split: option.splits)
  show ?thesis by (intro conjI c t p l s i h m w)
qed

section \<open>Properties of the cooldown manager\<close>

text \<open>
  C9. A call of \<open>enable48HourCooldown\<close> sets the expiry to 48 hours (172800000 ms) after
  the current time, disables automation and adds exactly one to the warning counter; two
  calls in a row on a store without warnings leave the counter at 2 and
  \<open>hasPermanentRestrictions\<close> true.
\<close>

theorem enable48HourCooldown_effect:
  "cooldownEnd (enable48HourCooldown now r st) = Some (now + 172800000)
   \<and> automationEnabled (enable48HourCooldown now r st) = Some False
   \<and> getWarningCount (enable48HourCooldown now r st) = getWarningCount st + 1
   \<and> (getWarningCount st = 0 \<longrightarrow>
        getWarningCount (enable48HourCooldown now2 r2 (enable48HourCooldown now r st)) = 2
        \<and> hasPermanentRestrictions
            (enable48HourCooldown now2 r2 (enable48HourCooldown now r st)))"
  by (simp add: enable48HourCooldown_def getWarningCount_def hasPermanentRestrictions_def
      Let_def split: option.splits)

theorem enable48HourCooldown_effect_witness:
  "getWarningCount emptyStorage = 0
   \<and> getWarningCount
       (enable48HourCooldown 2000 ''b'' (enable48HourCooldown 1000 ''a'' emptyStorage)) = 2
   \<and> hasPermanentRestrictions
       (enable48HourCooldown 2000 ''b'' (enable48HourCooldown 1000 ''a'' emptyStorage))"
  using enable48HourCooldown_effect [of 1000 "''a''" emptyStorage 2000 "''b''"]
  by (simp add: getWarningCount_def emptyStorage_def)

section \<open>Properties of the detection system\<close>

text \<open>
  C3 as stated fails: on a page whose action buttons are disabled the appearance tier
  emits one signal, of severity DEFCON4.
\<close>

theorem disabled_controls_severity_counterexample:
  "map severity (detectDOMWarnings 0 disabledButtonsPage) = [DEFCON4]"
  by (simp add: detectDOMWarnings_def warningPatternSignals_def captchaSignals_def
      disabledActionSignals_def checkpointSignals_def detectCaptcha_def querySelector_def
      detectDisabledActions_def disabledButtonsPage_def WARNING_SELECTORS_def Let_def)

text \<open>
  C3, amended. The signals of \<open>detectDOMWarnings\<close> are those of its four checks. Every
  signal of the warning-phrase check, of the CAPTCHA check and of the security-checkpoint
  check has the maximum severity DEFCON5; the signal of the disabled-controls check has
  severity DEFCON4.
\<close>

theorem detectDOMWarnings_severity:
  "set (detectDOMWarnings now doc)
     = set (warningPatternSignals now doc) \<union> set (captchaSignals now doc)
       \<union> set (disabledActionSignals now doc) \<union> set (checkpointSignals now doc)
   \<and> (\<forall>s \<in> set (warningPatternSignals now doc). severity s = DEFCON5)
   \<and> (\<forall>s \<in> set (captchaSignals now doc). severity s = DEFCON5)
   \<and> (\<forall>s \<in> set (checkpointSignals now doc). severity s = DEFCON5)
   \<and> (\<forall>s \<in> set (disabledActionSignals now doc). severity s = DEFCON4)"
  by (auto simp add: detectDOMWarnings_def warningPatternSignals_def captchaSignals_def
      disabledActionSignals_def checkpointSignals_def Let_def split: if_splits)

text \<open>On the checkpoint page each of the four checks emits one signal.\<close>

lemma checkpointPage_signals:
  "length (warningPatternSignals 0 checkpointPage) = 1"
  "length (captchaSignals 0 checkpointPage) = 1"
  "length (disabledActionSignals 0 checkpointPage) = 1"
  "length (checkpointSignals 0 checkpointPage) = 1"
     apply (simp add: warningPatternSignals_def checkpointPage_def WARNING_SELECTORS_def
      WARNING_PATTERNS_def toLowerCase_def toLowerChar_def Let_def)
    apply (simp add: captchaSignals_def detectCaptcha_def querySelector_def checkpointPage_def)
   apply (simp add: disabledActionSignals_def detectDisabledActions_def checkpointPage_def)
  apply (simp add: checkpointSignals_def checkpointPage_def)
  done

theorem detectDOMWarnings_severity_witness:
  "map severity (warningPatternSignals 0 checkpointPage) = [DEFCON5]
   \<and> map severity (captchaSignals 0 checkpointPage) = [DEFCON5]
   \<and> map severity (checkpointSignals 0 checkpointPage) = [DEFCON5]
   \<and> map severity (disabledActionSignals 0 checkpointPage) = [DEFCON4]"
  using detectDOMWarnings_severity [of 0 checkpointPage] checkpointPage_signals
  by (auto simp add: length_Suc_conv)

lemma consecutiveFailures_step:
  "consecutiveFailures (snd (detectBehavioralAnomalies now d ok det))
     = (if ok then 0 else consecutiveFailures det + 1)"
  by (simp add: detectBehavioralAnomalies_def Let_def)

lemma consecutiveFailures_feedReports:
  "consecutiveFailures det = 0 \<Longrightarrow>
   consecutiveFailures (feedReports det reports) = failuresSinceLastSuccess reports"
proof (induction reports rule: rev_induct)
  case Nil
  then show ?case by (simp add: feedReports_def failuresSinceLastSuccess_def)
next
  case (snoc r reports)
  obtain now d ok where r: "r = (now, d, ok)" by (cases r)
  have "consecutiveFailures (feedReports det (reports @ [r]))
          = (if ok then 0 else consecutiveFailures (feedReports det reports) + 1)"
    by (simp add: feedReports_def r consecutiveFailures_step)
  moreover have "failuresSinceLastSuccess (reports @ [r])
          = (if ok then 0 else failuresSinceLastSuccess reports + 1)"
    by (simp add: failuresSinceLastSuccess_def r)
  ultimately show ?case using snoc by simp
qed

lemma error_signals_of_report:
  "filter (\<lambda>s. sig_type s = error) (fst (detectBehavioralAnomalies now d ok det))
     = (let n = consecutiveFailures (snd (detectBehavioralAnomalies now d ok det)) in
        if 3 \<le> n then
          [\<lparr>sig_type = error, severity = DEFCON4,
            message = show_int n @ '' consecutive action failures detected'',
            timestamp = now,
            details = [(''consecutiveFailures'', DNum (real_of_int n))]\<rparr>]
        else [])"
  by (simp add: detectBehavioralAnomalies_def Let_def)

text \<open>
  C8. Let a fresh detector receive the reports \<open>reports\<close> and then one more. The
  consecutive-failure signal (the only signal of type \<open>error\<close>) is emitted on that report
  exactly when the number of failures since the last success, this report included, is at
  least 3; the counter then holds that number, and it is zero after a success.
\<close>

theorem consecutive_failure_signal:
  "filter (\<lambda>s. sig_type s = error)
     (fst (detectBehavioralAnomalies now d ok (feedReports (new_DetectionSystem ss) reports)))
     = (if 3 \<le> failuresSinceLastSuccess (reports @ [(now, d, ok)]) then
          [\<lparr>sig_type = error, severity = DEFCON4,
            message = show_int (failuresSinceLastSuccess (reports @ [(now, d, ok)]))
              @ '' consecutive action failures detected'',
            timestamp = now,
            details = [(''consecutiveFailures'',
               DNum (real_of_int (failuresSinceLastSuccess (reports @ [(now, d, ok)]))))]\<rparr>]
        else [])
   \<and> consecutiveFailures
       (snd (detectBehavioralAnomalies now d ok (feedReports (new_DetectionSystem ss) reports)))
     = failuresSinceLastSuccess (reports @ [(now, d, ok)])
   \<and> (ok \<longrightarrow> consecutiveFailures
       (snd (detectBehavioralAnomalies now d ok (feedReports (new_DetectionSystem ss) reports)))
     = 0)"
proof -
  have fresh: "consecutiveFailures (new_DetectionSystem ss) = 0"
    by (simp add: new_DetectionSystem_def initializeBaselines_def)
  have "snd (detectBehavioralAnomalies now d ok (feedReports (new_DetectionSystem ss) reports))
          = feedReports (new_DetectionSystem ss) (reports @ [(now, d, ok)])"
    by (simp add: feedReports_def)
  then have n: "consecutiveFailures
       (snd (detectBehavioralAnomalies now d ok (feedReports (new_DetectionSystem ss) reports)))
     = failuresSinceLastSuccess (reports @ [(now, d, ok)])"
    using consecutiveFailures_feedReports [OF fresh] by simp
  have z: "ok \<longrightarrow> failuresSinceLastSuccess (reports @ [(now, d, ok)]) = 0"
    by (simp add: failuresSinceLastSuccess_def)
  have c1: "filter (\<lambda>s. sig_type s = error)
     (fst (detectBehavioralAnomalies now d ok (feedReports (new_DetectionSystem ss) reports)))
     = (if 3 \<le> failuresSinceLastSuccess (reports @ [(now, d, ok)]) then
          [\<lparr>sig_type = error, severity = DEFCON4,
            message = show_int (failuresSinceLastSuccess (reports @ [(now, d, ok)]))
              @ '' consecutive action failures detected'',
            timestamp = now,
            details = [(''consecutiveFailures'',
               DNum (real_of_int (failuresSinceLastSuccess (reports @ [(now, d, ok)]))))]\<rparr>]
        else [])"
    unfolding error_signals_of_report n by (simp add: Let_def)
  have c3: "ok \<longrightarrow> consecutiveFailures
       (snd (detectBehavioralAnomalies now d ok (feedReports (new_DetectionSystem ss) reports)))
     = 0"
    unfolding n by (rule z)
  show ?thesis by (intro conjI c1 n c3)
qed

text \<open>
  Five failures in a row on a fresh detector: no signal on the first two, the signal on
  the third, the fourth and the fifth; a success after four failures resets the counter.
\<close>

theorem consecutive_failure_signal_witness:
  "map (\<lambda>k. map message (filter (\<lambda>s. sig_type s = error)
       (fst (detectBehavioralAnomalies 0 1000 False
          (feedReports (new_DetectionSystem idleSession) (replicate k (0, 1000, False)))))))
     [0, 1, 2, 3, 4]
   = [[], [], [''3 consecutive action failures detected''],
      [''4 consecutive action failures detected''],
      [''5 consecutive action failures detected'']]
   \<and> consecutiveFailures (snd (detectBehavioralAnomalies 0 1000 True
          (feedReports (new_DetectionSystem idleSession) (replicate 4 (0, 1000, False))))) = 0"
  using consecutive_failure_signal [of 0 1000 False idleSession "replicate 0 (0, 1000, False)"]
    consecutive_failure_signal [of 0 1000 False idleSession "replicate 1 (0, 1000, False)"]
    consecutive_failure_signal [of 0 1000 False idleSession "replicate 2 (0, 1000, False)"]
    consecutive_failure_signal [of 0 1000 False idleSession "replicate 3 (0, 1000, False)"]
    consecutive_failure_signal [of 0 1000 False idleSession "replicate 4 (0, 1000, False)"]
    consecutive_failure_signal [of 0 1000 True idleSession "replicate 4 (0, 1000, False)"]
  by (simp add: failuresSinceLastSuccess_def show_int_def show_nat.simps numeral_eq_Suc)


lemma recordAll_snoc: "recordAll det (timestamps @ [ts]) = recordActionTime ts (recordAll det timestamps)"
  by (simp add: recordAll_def)

lemma lastActionTimes_recordAll:
  assumes "length (lastActionTimes det) \<le> 20"
  shows "lastActionTimes (recordAll det timestamps)
     = drop (length (lastActionTimes det @ timestamps) - 20) (lastActionTimes det @ timestamps)"
proof (induction timestamps rule: rev_induct)
  case Nil
  then show ?case using assms by (simp add: recordAll_def)
next
  case (snoc ts timestamps)
  define all where "all = lastActionTimes det @ timestamps"
  have buf: "lastActionTimes (recordAll det timestamps) = drop (length all - 20) all"
    using snoc by (simp add: all_def)
  show ?case
  proof (cases "20 \<le> length all")
    case True
    then have ne: "drop (length all - 20) all \<noteq> []" by simp
    have "lastActionTimes (recordAll det (timestamps @ [ts]))
            = tl (drop (length all - 20) all @ [ts])"
      using True by (simp add: recordAll_snoc recordActionTime_def buf Let_def)
    also have "\<dots> = tl (drop (length all - 20) all) @ [ts]"
      using ne by (rule tl_append2)
    also have "\<dots> = drop (Suc (length all - 20)) all @ [ts]"
      by (simp add: drop_Suc tl_drop)
    also have "\<dots> = drop (length (all @ [ts]) - 20) (all @ [ts])"
    proof -
      have "Suc (length all - 20) = length (all @ [ts]) - 20" using True by simp
      moreover have "length (all @ [ts]) - 20 \<le> length all" by simp
      ultimately show ?thesis by (simp del: length_append)
    qed
    finally show ?thesis by (simp add: all_def)
  next
    case False
    then have "lastActionTimes (recordAll det (timestamps @ [ts])) = all @ [ts]"
      by (simp add: recordAll_snoc recordActionTime_def buf Let_def)
    then show ?thesis using False by (simp add: all_def)
  qed
qed

lemma length_intervalsOf: "length (intervalsOf xs) = length xs - 1"
  by (simp add: intervalsOf_def)

lemma intervalsOf_drop: "intervalsOf (drop k xs) = drop k (intervalsOf xs)"
proof (rule nth_equalityI)
  show "length (intervalsOf (drop k xs)) = length (drop k (intervalsOf xs))"
    by (simp add: length_intervalsOf)
next
  fix i
  assume "i < length (intervalsOf (drop k xs))"
  then have i: "Suc (k + i) < length xs" by (simp add: length_intervalsOf)
  then have b: "Suc 0 + i < length xs - k" "Suc 0 + (k + i) < length xs" by arith+
  have "intervalsOf (drop k xs) ! i = xs ! (k + Suc i) - xs ! (k + i)"
    using i nth_upt [OF b(1)] by (simp add: intervalsOf_def)
  moreover have "drop k (intervalsOf xs) ! i = xs ! (k + Suc i) - xs ! (k + i)"
    using i nth_upt [OF b(2)] by (simp add: intervalsOf_def)
  ultimately show "intervalsOf (drop k xs) ! i = drop k (intervalsOf xs) ! i" by simp
qed

text \<open>The timing check is the only step of \<open>detectPatternRisks\<close> with severity DEFCON3.\<close>

lemma timing_step_of_detectPatternRisks:
  "filter (\<lambda>s. severity s = DEFCON3) (detectPatternRisks now det) = timingSignals now det"
  by (simp add: detectPatternRisks_def dailyLimitSignals_def sessionDurationSignals_def
      timingSignals_def Let_def)

text \<open>The loop of the timing statistic yields the differences of neighbouring timestamps.\<close>

lemma intervalsOf_zip: "intervalsOf xs = map (\<lambda>(a, b). b - a) (zip xs (tl xs))"
proof (rule nth_equalityI)
  show "length (intervalsOf xs) = length (map (\<lambda>(a, b). b - a) (zip xs (tl xs)))"
    by (simp add: length_intervalsOf)
next
  fix i
  assume "i < length (intervalsOf xs)"
  then have i: "Suc i < length xs" by (simp add: length_intervalsOf)
  then have b: "Suc 0 + i < length xs" by simp
  have "intervalsOf xs ! i = xs ! Suc i - xs ! i"
    using i nth_upt [OF b] by (simp add: intervalsOf_def)
  moreover have "map (\<lambda>(a, b). b - a) (zip xs (tl xs)) ! i = xs ! Suc i - xs ! i"
    using i by (simp add: nth_tl)
  ultimately show "intervalsOf xs ! i = map (\<lambda>(a, b). b - a) (zip xs (tl xs)) ! i"
    by simp
qed

text \<open>
  C10. After any sequence of calls of \<open>recordActionTime\<close> on a fresh detector the buffer
  holds the last 20 of the recorded timestamps (all of them while there are at most 20),
  so at most 20. The intervals of the timing statistic are the differences of neighbouring
  timestamps of the buffer, one fewer than the buffer has timestamps (4 for 5 timestamps),
  which are the last 19 of the differences of neighbouring recorded timestamps, so at most
  19. \<open>detectPatternRisks\<close> emits its timing signal (the one of severity DEFCON3) exactly
  when at least 5 timestamps have been recorded and the standard deviation of these
  intervals is below 15% of their mean.
\<close>

theorem lastActionTimes_window:
  "lastActionTimes (recordAll (new_DetectionSystem ss) timestamps)
     = drop (length timestamps - 20) timestamps
   \<and> length (lastActionTimes (recordAll (new_DetectionSystem ss) timestamps)) \<le> 20
   \<and> intervalsOf (lastActionTimes (recordAll (new_DetectionSystem ss) timestamps))
     = map (\<lambda>(a, b). b - a)
         (zip (drop (length timestamps - 20) timestamps)
              (tl (drop (length timestamps - 20) timestamps)))
   \<and> intervalsOf (lastActionTimes (recordAll (new_DetectionSystem ss) timestamps))
     = drop (length timestamps - 1 - 19)
         (map (\<lambda>(a, b). b - a) (zip timestamps (tl timestamps)))
   \<and> length (intervalsOf (lastActionTimes (recordAll (new_DetectionSystem ss) timestamps)))
     = min 20 (length timestamps) - 1
   \<and> length (intervalsOf (lastActionTimes (recordAll (new_DetectionSystem ss) timestamps)))
     \<le> 19
   \<and> (filter (\<lambda>s. severity s = DEFCON3)
        (detectPatternRisks now (recordAll (new_DetectionSystem ss) timestamps)) \<noteq> []
      \<longleftrightarrow> 5 \<le> length timestamps
          \<and> stdDevOf (map (\<lambda>(a, b). b - a)
                (zip (drop (length timestamps - 20) timestamps)
                     (tl (drop (length timestamps - 20) timestamps))))
              < avgIntervalOf (map (\<lambda>(a, b). b - a)
                  (zip (drop (length timestamps - 20) timestamps)
                       (tl (drop (length timestamps - 20) timestamps)))) * 0.15)"
proof -
  define window where "window = drop (length timestamps - 20) timestamps"
  have "length (lastActionTimes (new_DetectionSystem ss)) \<le> 20"
    by (simp add: new_DetectionSystem_def initializeBaselines_def)
  from lastActionTimes_recordAll [OF this, of timestamps]
  have buf: "lastActionTimes (recordAll (new_DetectionSystem ss) timestamps) = window"
    by (simp add: new_DetectionSystem_def initializeBaselines_def window_def)
  have len: "length window \<le> 20" by (simp add: window_def)
  have c3: "intervalsOf window = map (\<lambda>(a, b). b - a) (zip window (tl window))"
    by (rule intervalsOf_zip)
  have iv: "intervalsOf window
     = drop (length timestamps - 1 - 19) (intervalsOf timestamps)"
  proof (cases "20 \<le> length timestamps")
    case True
    then have "length timestamps - 20 = length timestamps - 1 - 19" by simp
    then show ?thesis by (simp add: intervalsOf_drop window_def)
  next
    case False
    then show ?thesis by (simp add: window_def)
  qed
  have c4: "intervalsOf window
     = drop (length timestamps - 1 - 19)
         (map (\<lambda>(a, b). b - a) (zip timestamps (tl timestamps)))"
    using iv unfolding intervalsOf_zip [of timestamps] .
  have c5: "length (intervalsOf window) = min 20 (length timestamps) - 1"
    by (simp add: length_intervalsOf window_def min_def)
  have c6: "length (intervalsOf window) \<le> 19"
    using len by (simp add: length_intervalsOf)
  have five: "5 \<le> length window \<longleftrightarrow> 5 \<le> length timestamps"
    by (auto simp add: window_def)
  have "filter (\<lambda>s. severity s = DEFCON3)
        (detectPatternRisks now (recordAll (new_DetectionSystem ss) timestamps)) \<noteq> []
      \<longleftrightarrow> 5 \<le> length timestamps
          \<and> stdDevOf (intervalsOf window) < avgIntervalOf (intervalsOf window) * 0.15"
    unfolding timing_step_of_detectPatternRisks
    using five by (simp add: timingSignals_def buf Let_def)
  then have c7: "filter (\<lambda>s. severity s = DEFCON3)
        (detectPatternRisks now (recordAll (new_DetectionSystem ss) timestamps)) \<noteq> []
      \<longleftrightarrow> 5 \<le> length timestamps
          \<and> stdDevOf (map (\<lambda>(a, b). b - a) (zip window (tl window)))
              < avgIntervalOf (map (\<lambda>(a, b). b - a) (zip window (tl window))) * 0.15"
    unfolding c3 .
  show ?thesis
    unfolding buf using len c3 c4 c5 c6 c7 unfolding window_def
    by (intro conjI refl) assumption+
qed

text \<open>
  Five timestamps one second apart give four intervals of one second and the timing
  signal; four timestamps give no signal; recording 21 timestamps drops the first and
  leaves 19 intervals.
\<close>

theorem lastActionTimes_window_witness:
  "intervalsOf (lastActionTimes
       (recordAll (new_DetectionSystem idleSession) [0, 1000, 2000, 3000, 4000]))
     = [1000, 1000, 1000, 1000]
   \<and> filter (\<lambda>s. severity s = DEFCON3)
        (detectPatternRisks 5000
           (recordAll (new_DetectionSystem idleSession) [0, 1000, 2000, 3000, 4000])) \<noteq> []
   \<and> filter (\<lambda>s. severity s = DEFCON3)
        (detectPatternRisks 5000
           (recordAll (new_DetectionSystem idleSession) [0, 1000, 2000, 3000])) = []
   \<and> lastActionTimes (recordAll (new_DetectionSystem idleSession) (map int [0..<21]))
     = map int [1..<21]
   \<and> length (intervalsOf (lastActionTimes
        (recordAll (new_DetectionSystem idleSession) (map int [0..<21])))) = 19"
proof -
  note w5 = lastActionTimes_window [of idleSession "[0, 1000, 2000, 3000, 4000]" 5000]
  note w4 = lastActionTimes_window [of idleSession "[0, 1000, 2000, 3000]" 5000]
  note w21 = lastActionTimes_window [of idleSession "map int [0..<21]" 5000]
  have upt: "map int [0..<21] = 0 # map int [1..<21]" "length (map int [0..<21]) = 21"
    by (simp_all add: upt_rec)
  have a: "intervalsOf (lastActionTimes
       (recordAll (new_DetectionSystem idleSession) [0, 1000, 2000, 3000, 4000]))
     = [1000, 1000, 1000, 1000]"
    unfolding w5 [THEN conjunct2, THEN conjunct2, THEN conjunct1] by simp
  have "stdDevOf [1000, 1000, 1000, 1000] < avgIntervalOf [1000, 1000, 1000, 1000] * 0.15"
    by (simp add: stdDevOf_def varianceOf_def avgIntervalOf_def)
  then have b: "filter (\<lambda>s. severity s = DEFCON3)
        (detectPatternRisks 5000
           (recordAll (new_DetectionSystem idleSession) [0, 1000, 2000, 3000, 4000])) \<noteq> []"
    unfolding w5 [THEN conjunct2, THEN conjunct2, THEN conjunct2, THEN conjunct2,
        THEN conjunct2, THEN conjunct2]
    by simp
  have c: "filter (\<lambda>s. severity s = DEFCON3)
        (detectPatternRisks 5000
           (recordAll (new_DetectionSystem idleSession) [0, 1000, 2000, 3000])) = []"
    using w4 [THEN conjunct2, THEN conjunct2, THEN conjunct2, THEN conjunct2,
        THEN conjunct2, THEN conjunct2]
    by simp
  have d: "lastActionTimes (recordAll (new_DetectionSystem idleSession) (map int [0..<21]))
     = map int [1..<21]"
    unfolding w21 [THEN conjunct1] by (simp add: upt)
  have e: "length (intervalsOf (lastActionTimes
        (recordAll (new_DetectionSystem idleSession) (map int [0..<21])))) = 19"
    unfolding w21 [THEN conjunct2, THEN conjunct2, THEN conjunct2, THEN conjunct2,
        THEN conjunct1]
    by simp
  show ?thesis by (intro conjI a b c d e)
qed

text \<open>
  Recording 21 timestamps drops the first; five timestamps one second apart are enough for
  the timing signal, four are not.
\<close>

lemma lastActionTimes_scenarios:
  "lastActionTimes (recordAll (new_DetectionSystem idleSession) (map int [0..<21]))
     = map int [1..<21]"
  "timingSignals 5000 (recordAll (new_DetectionSystem idleSession) [0, 1000, 2000, 3000, 4000])
     \<noteq> []"
  "timingSignals 5000 (recordAll (new_DetectionSystem idleSession) [0, 1000, 2000, 3000]) = []"
    apply (simp add: recordAll_def recordActionTime_def new_DetectionSystem_def
      initializeBaselines_def upt_rec Let_def)
   apply (simp add: recordAll_def recordActionTime_def new_DetectionSystem_def
      initializeBaselines_def timingSignals_def intervalsOf_def avgIntervalOf_def
      stdDevOf_def varianceOf_def upt_rec Let_def)
  apply (simp add: recordAll_def recordActionTime_def new_DetectionSystem_def
      initializeBaselines_def timingSignals_def Let_def)
  done

section \<open>Properties of the humanization engine\<close>

text \<open>The remainder is smaller than the divisor, on either side of zero.\<close>

lemma js_rem_bounds:
  assumes "0 < b"
  shows "- b < js_rem a b \<and> js_rem a b < b"
proof (cases "0 \<le> a / b")
  case True
  have "real_of_int \<lfloor>a / b\<rfloor> * b \<le> a"
    using pos_le_divide_eq [OF assms, of "real_of_int \<lfloor>a / b\<rfloor>" a] of_int_floor_le [of "a / b"]
    by blast
  moreover have "a < (real_of_int \<lfloor>a / b\<rfloor> + 1) * b"
    using pos_divide_less_eq [OF assms, of a "real_of_int \<lfloor>a / b\<rfloor> + 1"]
      real_of_int_floor_add_one_gt [of "a / b"]
    by blast
  moreover have "js_rem a b = a - real_of_int \<lfloor>a / b\<rfloor> * b"
    using True by (simp add: js_rem_def js_trunc_def)
  ultimately show ?thesis using assms by (simp add: distrib_right)
next
  case False
  have "a \<le> real_of_int \<lceil>a / b\<rceil> * b"
    using pos_divide_le_eq [OF assms, of a "real_of_int \<lceil>a / b\<rceil>"] le_of_int_ceiling [of "a / b"]
    by blast
  moreover have "(real_of_int \<lceil>a / b\<rceil> - 1) * b < a"
    using pos_less_divide_eq [OF assms, of "real_of_int \<lceil>a / b\<rceil> - 1" a]
      ceiling_correct [of "a / b"]
    by blast
  moreover have "js_rem a b = a - real_of_int \<lceil>a / b\<rceil> * b"
    using False by (simp add: js_rem_def js_trunc_def)
  ultimately show ?thesis using assms by (simp add: left_diff_distrib)
qed

text \<open>
  A draw over a range wider than \<open>1/256\<close> returns, strictly below \<open>max\<close> and strictly
  above \<open>min - range\<close>; between two integers it returns an integer.
\<close>

lemma cryptoRandomRange_returns:
  assumes "1 / 256 < max' - min'"
  shows "\<exists>v p. cryptoRandomRange rnd pos min' max' = Inr (v, p)
           \<and> min' - (max' - min') < v \<and> v < max'"
proof -
  define n where "n = nat \<lceil>log 2 (max' - min') / 8\<rceil>"
  define rv where "rv = real_of_int (randomValueOf (map rnd [pos..<pos + n]))"
  have eq: "cryptoRandomRange rnd pos min' max' = Inr (min' + js_rem rv (max' - min'), pos + n)"
    using assms by (simp add: cryptoRandomRange_def Let_def n_def rv_def)
  have "0 < max' - min'" using assms by simp
  from js_rem_bounds [OF this, of rv]
  have "min' - (max' - min') < min' + js_rem rv (max' - min')"
    "min' + js_rem rv (max' - min') < max'"
    by linarith+
  then show ?thesis unfolding eq by blast
qed

lemma cryptoRandomRange_int_returns:
  assumes "mn < mx"
  shows "\<exists>k p. cryptoRandomRange rnd pos (real_of_int mn) (real_of_int mx) = Inr (real_of_int k, p)
           \<and> 2 * mn - mx < k \<and> k < mx"
proof -
  have r: "1 / 256 < real_of_int mx - real_of_int mn" 
  proof -
    have "1 \<le> mx - mn" using assms by simp
    then have "1 \<le> real_of_int mx - real_of_int mn" by linarith
    then show ?thesis by simp
  qed
  from cryptoRandomRange_returns [OF r, of rnd pos] obtain v p where
    v: "cryptoRandomRange rnd pos (real_of_int mn) (real_of_int mx) = Inr (v, p)"
       "real_of_int mn - (real_of_int mx - real_of_int mn) < v" "v < real_of_int mx"
    by blast
  have "\<exists>k. v = real_of_int k"
  proof -
    have "\<exists>k. js_rem (real_of_int a) (real_of_int (mx - mn)) = real_of_int k" for a
      unfolding js_rem_def by (metis of_int_diff of_int_mult)
    then obtain k' where "js_rem (real_of_int (randomValueOf (map rnd [pos..<pos + nat \<lceil>log 2 (real_of_int mx - real_of_int mn) / 8\<rceil>]))) (real_of_int (mx - mn)) = real_of_int k'"
      by blast
    then have "v = real_of_int (mn + k')"
      using v(1) r by (simp add: cryptoRandomRange_def Let_def)
    then show ?thesis by blast
  qed
  then obtain k where k: "v = real_of_int k" by blast
  have "2 * mn - mx < k" "k < mx" using v(2,3) unfolding k by linarith+
  then show ?thesis using v(1) k by blast
qed

text \<open>
  C2. For every speed mode and session state, every content of the random stream, every
  number of actions in the session and every hour, \<open>calculateActionDelay\<close> returns (no
  draw raises) and the delay it returns is at least 15000 ms.
\<close>

theorem calculateActionDelay_floor:
  "\<exists>delay pos'. calculateActionDelay rnd pos hour ss = Inr (delay, pos') \<and> 15000 \<le> delay"
proof -
  obtain mn mx where b: "baseDelay (getTimingConfig ss) = (mn, mx)"
    by (cases "baseDelay (getTimingConfig ss)") 
  have rng: "mn < mx \<and> 0 \<le> 2 * mn - mx"
    using b by (cases "speedMode ss") (auto simp add: getTimingConfig_def)
  from cryptoRandomRange_int_returns [of mn mx rnd pos] rng obtain k p1 where
    k: "cryptoRandomRange rnd pos (real_of_int mn) (real_of_int mx) = Inr (real_of_int k, p1)"
       "2 * mn - mx < k"
    by blast
  have "1 \<le> k" using k(2) rng by linarith
  then have "1 \<le> real_of_int k" by simp
  then have "1 / 256 < real_of_int k * 0.3 - (- (real_of_int k * 0.3))" by simp
  from cryptoRandomRange_returns [OF this, of rnd p1] obtain v p2 where
    v: "cryptoRandomRange rnd p1 (- (real_of_int k * 0.3)) (real_of_int k * 0.3) = Inr (v, p2)"
    by blast
  have "(1::real) / 256 < 2000 - (- 2000)" by simp
  from cryptoRandomRange_returns [OF this, of rnd p2] obtain e p3 where
    e: "cryptoRandomRange rnd p2 (- 2000) 2000 = Inr (e, p3)"
    by blast
  show ?thesis
    using b k(1) v e by (simp add: calculateActionDelay_def Let_def)
qed

text \<open>
  A run: each draw below asks for two bytes. With every byte zero, in the normal speed
  mode, at a peak hour and without fatigue, the draws give 20000, then -6000, then -2000:
  the sum 12000 is under the floor and the delay is 15000.
\<close>

lemma bytesNeeded_two:
  assumes "256 < r" "r \<le> 65536"
  shows "nat \<lceil>log 2 r / 8\<rceil> = 2"
proof -
  have "log 2 256 < log 2 r" using assms by simp
  moreover have "log 2 256 = 8"
    using log_pow_cancel [of 2 8] by simp
  moreover have "log 2 r \<le> log 2 65536" using assms by simp
  moreover have "log 2 65536 = 16"
    using log_pow_cancel [of 2 16] by simp
  ultimately have "1 < log 2 r / 8" "log 2 r / 8 \<le> 2" by simp_all
  then have "\<lceil>log 2 r / 8\<rceil> = 2" by (simp add: ceiling_eq_iff)
  then show ?thesis by simp
qed

lemma cryptoRandomRange_zero_bytes:
  assumes "256 < max' - min'" "max' - min' \<le> 65536"
  shows "cryptoRandomRange (\<lambda>i. 0) pos min' max' = Inr (min', pos + 2)"
proof -
  have "nat \<lceil>log 2 (max' - min') / 8\<rceil> = 2" using assms by (rule bytesNeeded_two)
  moreover have "[pos..<pos + 2] = [pos, Suc pos]" by (simp add: upt_rec)
  ultimately show ?thesis
    using assms
    by (simp add: cryptoRandomRange_def Let_def randomValueOf_def js_rem_def js_trunc_def)
qed

lemma calculateActionDelay_clamped_run:
  "calculateActionDelay (\<lambda>i. 0) 0 10 (idleSession\<lparr>speedMode := NORMAL\<rparr>) = Inr (15000, 6)"
proof -
  have d0: "cryptoRandomRange (\<lambda>i. 0) 0 20000 40000 = Inr (20000, 2)"
    using cryptoRandomRange_zero_bytes [where min' = 20000 and max' = 40000 and pos = 0] by simp
  have d1: "cryptoRandomRange (\<lambda>i. 0) 2 (- 6000) 6000 = Inr (- 6000, 4)"
    using cryptoRandomRange_zero_bytes [where min' = "- 6000" and max' = 6000 and pos = 2] by simp
  have d2: "cryptoRandomRange (\<lambda>i. 0) 4 (- 2000) 2000 = Inr (- 2000, 6)"
    using cryptoRandomRange_zero_bytes [where min' = "- 2000" and max' = 2000 and pos = 4] by simp
  show ?thesis
    by (simp add: calculateActionDelay_def getTimingConfig_def idleSession_def Let_def
        calculateFatigueMultiplier_def calculateDailyRhythmMultiplier_def d0 d1 d2)
qed

end
